theory Spec2Isabelle
  imports Complex_Main "HOL-Library.AList"
begin

section \<open>Zero-order electrocoagulation unit: the model built by \<open>ElectrocoagulationZOData.build\<close>\<close>

text \<open>
  The unit model of \<^verbatim>\<open>watertap/unit_models/zero_order/electrocoagulation_zo.py\<close> declares
  variables on a block and attaches one indexed equality constraint to it. The block is a
  record, the components it holds are kept by attribute name, an expression is a syntax tree
  over references to variables (as the modelling framework keeps it), and the value of an
  expression under an assignment of the variables either is a real number or is the error
  Python raises.
\<close>

subsection \<open>Expressions, constraints and their values\<close>

type_synonym name = string

text \<open>
  \<open>VarRef n None\<close> is the scalar variable \<^verbatim>\<open>b.n\<close>, \<open>VarRef n (Some t)\<close> the member
  \<^verbatim>\<open>b.n[t]\<close> of a variable indexed by time.
\<close>

datatype 't expr =
    Num real
  | VarRef name "'t option"
  | Add "'t expr" "'t expr"
  | Mul "'t expr" "'t expr"
  | Div "'t expr" "'t expr"
  | Log "'t expr"

text \<open>\<^verbatim>\<open>lhs == rhs\<close> on expressions is an equality constraint, not a boolean.\<close>

datatype 't constraint_expr = Equality "'t expr" "'t expr"

datatype py_error = ZeroDivisionError | ValueError

type_synonym 't assignment = "name \<Rightarrow> 't option \<Rightarrow> real"

text \<open>
  Evaluation goes through the operands from left to right; a division by zero raises
  \<^verbatim>\<open>ZeroDivisionError\<close> and the logarithm of a number that is not positive raises
  \<^verbatim>\<open>ValueError\<close> (math domain error).
\<close>

fun value_of :: "'t assignment \<Rightarrow> 't expr \<Rightarrow> py_error + real" where
  "value_of \<rho> (Num c) = Inr c"
| "value_of \<rho> (VarRef n i) = Inr (\<rho> n i)"
| "value_of \<rho> (Add l r) =
     (case value_of \<rho> l of Inl e \<Rightarrow> Inl e
      | Inr x \<Rightarrow> (case value_of \<rho> r of Inl e \<Rightarrow> Inl e | Inr y \<Rightarrow> Inr (x + y)))"
| "value_of \<rho> (Mul l r) =
     (case value_of \<rho> l of Inl e \<Rightarrow> Inl e
      | Inr x \<Rightarrow> (case value_of \<rho> r of Inl e \<Rightarrow> Inl e | Inr y \<Rightarrow> Inr (x * y)))"
| "value_of \<rho> (Div l r) =
     (case value_of \<rho> l of Inl e \<Rightarrow> Inl e
      | Inr x \<Rightarrow> (case value_of \<rho> r of Inl e \<Rightarrow> Inl e
          | Inr y \<Rightarrow> (if y = 0 then Inl ZeroDivisionError else Inr (x / y))))"
| "value_of \<rho> (Log a) =
     (case value_of \<rho> a of Inl e \<Rightarrow> Inl e
      | Inr x \<Rightarrow> (if 0 < x then Inr (ln x) else Inl ValueError))"

text \<open>An expression is well defined under an assignment when its evaluation raises nothing.\<close>

definition well_defined :: "'t assignment \<Rightarrow> 't expr \<Rightarrow> bool" where
  "well_defined \<rho> e = (case value_of \<rho> e of Inl _ \<Rightarrow> False | Inr _ \<Rightarrow> True)"

fun constraint_well_defined :: "'t assignment \<Rightarrow> 't constraint_expr \<Rightarrow> bool" where
  "constraint_well_defined \<rho> (Equality l r) = (well_defined \<rho> l \<and> well_defined \<rho> r)"

text \<open>An assignment satisfies an equality constraint when both sides have a value and the
  two values are equal.\<close>

fun satisfied :: "'t assignment \<Rightarrow> 't constraint_expr \<Rightarrow> bool" where
  "satisfied \<rho> (Equality l r) =
     (case value_of \<rho> l of Inl _ \<Rightarrow> False
      | Inr x \<Rightarrow> (case value_of \<rho> r of Inl _ \<Rightarrow> False | Inr y \<Rightarrow> x = y))"

subsection \<open>Units, variables and the block\<close>

text \<open>The units the module names: \<^verbatim>\<open>pyunits.cm\<close>, \<^verbatim>\<open>pyunits.S / pyunits.cm\<close>,
  \<^verbatim>\<open>pyunits.dimensionless\<close>, \<^verbatim>\<open>pyunits.mA / pyunits.cm**2\<close>,
  \<^verbatim>\<open>pyunits.A / pyunits.cm**2\<close> and \<^verbatim>\<open>pyunits.kWh / pyunits.m**3 / pyunits.mol\<close>.\<close>

datatype pyunit = Cm | S_per_cm | Dimensionless | MA_per_cm2 | A_per_cm2 | KWh_per_m3_per_mol

text \<open>
  A \<^verbatim>\<open>Var(...)\<close> declaration: the index set (\<open>None\<close> for a scalar variable), the units,
  the bounds (lower, upper; \<open>None\<close> where none is declared) and the doc string.
\<close>

record 't var_decl =
  index_set :: "'t list option"
  units :: pyunit
  bounds :: "real option \<times> real option"
  doc :: string

datatype 't component =
    Var_comp "'t var_decl"
  | Constraint_comp "('t \<times> 't constraint_expr) list" string

text \<open>
  The part of the unit's block this module reads and writes: \<^verbatim>\<open>_tech_type\<close>, the
  components by attribute name, the list \<^verbatim>\<open>_fixed_perf_vars\<close> and the dictionary
  \<^verbatim>\<open>_perf_var_dict\<close> (report label to variable).
\<close>

record 't block =
  tech_type :: "string option"
  components :: "(name \<times> 't component) list"
  fixed_perf_vars :: "name list"
  perf_var_dict :: "(string \<times> name) list"

text \<open>\<^verbatim>\<open>self.n = c\<close>: the attribute \<open>n\<close> of the block now holds the component \<open>c\<close>.\<close>

definition set_component :: "name \<Rightarrow> 't component \<Rightarrow> 't block \<Rightarrow> 't block" where
  "set_component n c b = b\<lparr>components := AList.update n c (components b)\<rparr>"

text \<open>\<^verbatim>\<open>self._fixed_perf_vars.append(self.n)\<close>\<close>

definition append_fixed_perf_var :: "name \<Rightarrow> 't block \<Rightarrow> 't block" where
  "append_fixed_perf_var n b = b\<lparr>fixed_perf_vars := fixed_perf_vars b @ [n]\<rparr>"

text \<open>\<^verbatim>\<open>self._perf_var_dict[label] = self.n\<close>\<close>

definition set_perf_var :: "string \<Rightarrow> name \<Rightarrow> 't block \<Rightarrow> 't block" where
  "set_perf_var label n b = b\<lparr>perf_var_dict := AList.update label n (perf_var_dict b)\<rparr>"

definition get_component :: "'t block \<Rightarrow> name \<Rightarrow> 't component option" where
  "get_component b n = map_of (components b) n"

text \<open>\<^verbatim>\<open>b.n[t]\<close> for an indexed constraint \<open>n\<close>.\<close>

definition constraint_at :: "'t block \<Rightarrow> name \<Rightarrow> 't \<Rightarrow> 't constraint_expr option" where
  "constraint_at b n t =
     (case get_component b n of
        Some (Constraint_comp cs _) \<Rightarrow> map_of cs t
      | _ \<Rightarrow> None)"

subsection \<open>Bounds\<close>

fun within_bounds :: "real option \<times> real option \<Rightarrow> real \<Rightarrow> bool" where
  "within_bounds (lo, hi) x =
     ((case lo of None \<Rightarrow> True | Some l \<Rightarrow> l \<le> x) \<and> (case hi of None \<Rightarrow> True | Some h \<Rightarrow> x \<le> h))"

fun component_within_bounds :: "'t assignment \<Rightarrow> name \<times> 't component \<Rightarrow> bool" where
  "component_within_bounds \<rho> (n, Var_comp d) =
     (case index_set d of
        None \<Rightarrow> within_bounds (bounds d) (\<rho> n None)
      | Some ts \<Rightarrow> list_all (\<lambda>t. within_bounds (bounds d) (\<rho> n (Some t))) ts)"
| "component_within_bounds \<rho> (n, Constraint_comp cs d) = True"

text \<open>An assignment respects the declared bounds of a block when every member of every
  variable of the block lies within the bounds its declaration gives.\<close>

definition respects_bounds :: "'t block \<Rightarrow> 't assignment \<Rightarrow> bool" where
  "respects_bounds b \<rho> = list_all (component_within_bounds \<rho>) (components b)"

subsection \<open>The constraint rule\<close>

text \<open>What running the rule does besides returning: \<^verbatim>\<open>breakpoint()\<close> hands control to
  the debugger hook.\<close>

datatype event = Breakpoint

text \<open>
  \<^verbatim>\<open>pyunits.convert(b.current_density[t], to_units=pyunits.A / pyunits.cm**2)\<close> on a
  quantity in \<^verbatim>\<open>mA/cm**2\<close>: one milliampere is \<open>1/1000\<close> ampere.
\<close>

definition convert_mA_per_cm2_to_A_per_cm2 :: "'t expr \<Rightarrow> 't expr" where
  "convert_mA_per_cm2_to_A_per_cm2 e = Mul (Num (1 / 1000)) e"

definition current_density_in :: "'t \<Rightarrow> 't expr" where
  "current_density_in t = convert_mA_per_cm2_to_A_per_cm2 (VarRef ''current_density'' (Some t))"

definition ohmic_resistance :: "'t expr" where
  "ohmic_resistance = Div (VarRef ''electrode_spacing'' None) (VarRef ''solution_conductivity'' None)"

text \<open>
  The rule \<^verbatim>\<open>energy_consumption_constraint(b, t)\<close>. It computes the two local expressions,
  calls \<^verbatim>\<open>breakpoint()\<close>, and then returns the equality. The result is the list of events
  of the call, in order, and the expression returned after them. The Faraday constant
  \<^verbatim>\<open>Constants.faraday_constant\<close> comes from the process-modelling library and is the
  parameter \<open>F\<close>.
\<close>

definition energy_consumption_constraint :: "real \<Rightarrow> 't \<Rightarrow> event list \<times> 't constraint_expr" where
  "energy_consumption_constraint F t =
     ([Breakpoint],
      Equality (VarRef ''energy_consumption'' (Some t))
        (Mul
          (Add
            (Add (Mul (current_density_in t) ohmic_resistance)
                 (Mul (VarRef ''power_density_k1'' None) (Log (current_density_in t))))
            (VarRef ''power_density_k2'' None))
          (Div (Mul (VarRef ''z_valence'' None) (Num F)) (Num (3600 * 10 ^ 6)))))"

text \<open>
  \<^verbatim>\<open>@self.Constraint(self.flowsheet().time, ...)\<close>: the rule is called once for every
  member of the index set, in order, and the results are stored by index.
\<close>

fun Constraint :: "'t list \<Rightarrow> ('t \<Rightarrow> event list \<times> 't constraint_expr)
    \<Rightarrow> event list \<times> ('t \<times> 't constraint_expr) list" where
  "Constraint [] rule = ([], [])"
| "Constraint (t # ts) rule =
     (case rule t of (ev, c) \<Rightarrow>
        (case Constraint ts rule of (evs, cs) \<Rightarrow> (ev @ evs, (t, c) # cs)))"

subsection \<open>\<open>build\<close>\<close>

definition declare_fixed_parameters :: "'t block \<Rightarrow> 't block" where
  "declare_fixed_parameters b =
     (let b = set_component ''electrode_spacing''
                (Var_comp \<lparr>index_set = None, units = Cm, bounds = (None, None),
                           doc = ''Distance between the electrodes''\<rparr>) b;
          b = set_component ''solution_conductivity''
                (Var_comp \<lparr>index_set = None, units = S_per_cm, bounds = (None, None),
                           doc = ''Electrical conductivity of solution''\<rparr>) b;
          b = set_component ''power_density_k1''
                (Var_comp \<lparr>index_set = None, units = Dimensionless, bounds = (None, None),
                           doc = ''Constant k1 in power density equation''\<rparr>) b;
          b = set_component ''power_density_k2''
                (Var_comp \<lparr>index_set = None, units = Dimensionless, bounds = (None, None),
                           doc = ''Constant k2 in power density equation''\<rparr>) b;
          b = set_component ''z_valence''
                (Var_comp \<lparr>index_set = None, units = Dimensionless, bounds = (None, None),
                           doc = ''Valence of dissolving metal ion for energy consumption equation''\<rparr>) b;
          b = append_fixed_perf_var ''electrode_spacing'' b;
          b = append_fixed_perf_var ''solution_conductivity'' b;
          b = append_fixed_perf_var ''power_density_k1'' b;
          b = append_fixed_perf_var ''power_density_k2'' b;
          b = append_fixed_perf_var ''z_valence'' b
      in b)"

definition declare_variables :: "'t list \<Rightarrow> 't block \<Rightarrow> 't block" where
  "declare_variables time b =
     (let b = set_component ''current_density''
                (Var_comp \<lparr>index_set = Some time, units = MA_per_cm2, bounds = (Some 1, Some 9),
                           doc = ''Current density''\<rparr>) b;
          b = set_component ''energy_consumption''
                (Var_comp \<lparr>index_set = Some time, units = KWh_per_m3_per_mol, bounds = (None, None),
                           doc = ''Energy required for treating a given volume''\<rparr>) b
      in b)"

text \<open>
  The two report labels end in a superscript two and a superscript three; they are written
  here as the bytes of their UTF-8 encoding.
\<close>

definition store_reporting_contents :: "'t block \<Rightarrow> 't block" where
  "store_reporting_contents b =
     (let b = set_perf_var (''Current density (mA/cm'' @ [CHR 0xC2, CHR 0xB2] @ '')'')
                ''current_density'' b;
          b = set_perf_var (''Energy Consumption (kWh/m'' @ [CHR 0xC2, CHR 0xB3] @ ''/mole)'')
                ''energy_consumption'' b
      in b)"

text \<open>
  \<^verbatim>\<open>build(self)\<close>. The block \<open>b0\<close> is the block as \<^verbatim>\<open>super().build()\<close> leaves it,
  \<open>build_sido\<close> is the helper of \<^verbatim>\<open>watertap.core\<close> that adds the inlet, treated and
  byproduct streams, and \<open>time\<close> is \<^verbatim>\<open>self.flowsheet().time\<close>; the three, and the Faraday
  constant \<open>F\<close>, are defined outside this module. The result is the events of the call and
  the block it leaves.
\<close>

definition build :: "real \<Rightarrow> 't list \<Rightarrow> ('t block \<Rightarrow> 't block) \<Rightarrow> 't block
    \<Rightarrow> event list \<times> 't block" where
  "build F time build_sido b0 =
     (let b = b0\<lparr>tech_type := Some ''electrocoagulation''\<rparr>;
          b = build_sido b;
          b = declare_fixed_parameters b;
          b = declare_variables time b
      in case Constraint time (energy_consumption_constraint F) of
           (evs, cs) \<Rightarrow>
             (evs, store_reporting_contents
                     (set_component ''energy_consumption_constraint''
                        (Constraint_comp cs ''Energy requirement constraint'') b)))"

subsection \<open>What a call of \<open>breakpoint()\<close> does\<close>

text \<open>
  \<^verbatim>\<open>breakpoint()\<close> calls the hook \<^verbatim>\<open>sys.breakpointhook()\<close>. The hook Python installs
  calls \<^verbatim>\<open>pdb.set_trace()\<close>, which stops the program at the call site and hands control to
  the interactive debugger; when the environment variable \<^verbatim>\<open>PYTHONBREAKPOINT\<close> is
  \<^verbatim>\<open>0\<close> the hook returns at once and the program goes on.
\<close>

datatype breakpointhook = Pdb_set_trace | No_op

text \<open>
  How a call proceeds: \<open>Done x\<close> has returned \<open>x\<close>; \<open>Suspended k\<close> is stopped in the
  interactive debugger, with nothing returned yet, and \<open>k\<close> is how the call proceeds once
  the debugger session lets the program continue.
\<close>

datatype 'a execution = Done 'a | Suspended "'a execution"

fun after_events :: "breakpointhook \<Rightarrow> event list \<Rightarrow> 'a \<Rightarrow> 'a execution" where
  "after_events h [] x = Done x"
| "after_events h (Breakpoint # evs) x =
     (case h of
        Pdb_set_trace \<Rightarrow> Suspended (after_events h evs x)
      | No_op \<Rightarrow> after_events h evs x)"

text \<open>A call with its events, in order, and the value it returns after them, run under a hook.\<close>

definition execution :: "breakpointhook \<Rightarrow> event list \<times> 'a \<Rightarrow> 'a execution" where
  "execution h r = after_events h (fst r) (snd r)"

text \<open>The number of stops in the debugger before the call returns, and the value returned.\<close>

fun suspensions :: "'a execution \<Rightarrow> nat" where
  "suspensions (Done x) = 0"
| "suspensions (Suspended k) = Suc (suspensions k)"

fun returned :: "'a execution \<Rightarrow> 'a" where
  "returned (Done x) = x"
| "returned (Suspended k) = returned k"

subsection \<open>A concrete unit\<close>

text \<open>
  A flowsheet with the single time point \<open>0\<close>, a block that holds nothing before
  \<open>build\<close> runs, and two assignments of its variables: one with every parameter set, and
  one that sets the current density to 5 and leaves every other variable at zero.
\<close>

definition example_block :: "nat block" where
  "example_block = \<lparr>tech_type = None, components = [], fixed_perf_vars = [], perf_var_dict = []\<rparr>"

definition example_build_sido :: "nat block \<Rightarrow> nat block" where
  "example_build_sido b = b"

definition example_faraday :: real where
  "example_faraday = 96485.33212"

definition example_assignment :: "nat assignment" where
  "example_assignment n i =
     (if n = ''current_density'' then 5
      else if n = ''electrode_spacing'' then 2
      else if n = ''solution_conductivity'' then 4
      else if n = ''power_density_k1'' then 0
      else if n = ''power_density_k2'' then 1
      else if n = ''z_valence'' then 3
      else if n = ''energy_consumption''
        then (5 / 1000 * (2 / 4) + 0 + 1) * (3 * 96485.33212 / (3600 * 10 ^ 6))
      else 0)"

definition zero_conductivity_assignment :: "nat assignment" where
  "zero_conductivity_assignment n i = (if n = ''current_density'' then 5 else 0)"

section \<open>Properties\<close>

subsection \<open>The events of building the constraint\<close>

lemma Constraint_events:
  "\<forall>t. fst (rule t) = ev \<Longrightarrow> fst (Constraint ts rule) = concat (replicate (length ts) ev)"
  by (induction ts) (simp_all add: split_beta)

lemma Constraint_lookup:
  "t \<in> set ts \<Longrightarrow> map_of (snd (Constraint ts rule)) t = Some (snd (rule t))"
  by (induction ts) (auto simp: split_beta)

lemma build_events: "fst (build F time sido b0) = fst (Constraint time (energy_consumption_constraint F))"
  by (simp add: build_def Let_def split_beta)

subsection \<open>Values of the local expressions, and what \<open>build\<close> leaves on the block\<close>

lemma value_of_current_density_in:
  "value_of \<rho> (current_density_in t) = Inr (\<rho> ''current_density'' (Some t) / 1000)"
  by (simp add: current_density_in_def convert_mA_per_cm2_to_A_per_cm2_def)

lemma value_of_ohmic_resistance:
  "value_of \<rho> (ohmic_resistance :: 't expr) =
     (if \<rho> ''solution_conductivity'' None = 0 then Inl ZeroDivisionError
      else Inr (\<rho> ''electrode_spacing'' None / \<rho> ''solution_conductivity'' None))"
  by (simp add: ohmic_resistance_def)

lemma get_component_set_component:
  "get_component (set_component n c b) m = (if m = n then Some c else get_component b m)"
  by (simp add: get_component_def set_component_def update_conv')

lemma get_component_store_reporting_contents:
  "get_component (store_reporting_contents b) m = get_component b m"
  by (simp add: store_reporting_contents_def set_perf_var_def get_component_def Let_def)

lemma build_constraint_component:
  "get_component (snd (build F time sido b0)) ''energy_consumption_constraint'' =
     Some (Constraint_comp (snd (Constraint time (energy_consumption_constraint F)))
             ''Energy requirement constraint'')"
  by (simp add: build_def Let_def split_beta get_component_store_reporting_contents
      get_component_set_component)

lemma build_constraint_at:
  "t \<in> set time \<Longrightarrow>
   constraint_at (snd (build F time sido b0)) ''energy_consumption_constraint'' t =
     Some (snd (energy_consumption_constraint F t))"
  by (simp add: constraint_at_def build_constraint_component Constraint_lookup)

lemma build_current_density_component:
  "get_component (snd (build F time sido b0)) ''current_density'' =
     Some (Var_comp \<lparr>index_set = Some time, units = MA_per_cm2, bounds = (Some 1, Some 9),
                     doc = ''Current density''\<rparr>)"
  by (simp add: build_def Let_def split_beta get_component_store_reporting_contents
      get_component_set_component declare_variables_def)

lemma satisfied_energy_consumption_constraint:
  "satisfied \<rho> (snd (energy_consumption_constraint F t)) \<longleftrightarrow>
     0 < \<rho> ''current_density'' (Some t) \<and> \<rho> ''solution_conductivity'' None \<noteq> 0 \<and>
     \<rho> ''energy_consumption'' (Some t) =
       (\<rho> ''current_density'' (Some t) / 1000
          * (\<rho> ''electrode_spacing'' None / \<rho> ''solution_conductivity'' None)
        + \<rho> ''power_density_k1'' None * ln (\<rho> ''current_density'' (Some t) / 1000)
        + \<rho> ''power_density_k2'' None)
       * (\<rho> ''z_valence'' None * F / (3600 * 10 ^ 6))"
  by (auto simp add: energy_consumption_constraint_def value_of_current_density_in
      value_of_ohmic_resistance)

lemma well_defined_energy_consumption_constraint:
  "constraint_well_defined \<rho> (snd (energy_consumption_constraint F t)) \<longleftrightarrow>
     0 < \<rho> ''current_density'' (Some t) \<and> \<rho> ''solution_conductivity'' None \<noteq> 0"
  by (auto simp add: energy_consumption_constraint_def value_of_current_density_in
      value_of_ohmic_resistance well_defined_def)

lemma respects_bounds_component:
  "respects_bounds b \<rho> \<Longrightarrow> get_component b n = Some c \<Longrightarrow> component_within_bounds \<rho> (n, c)"
  by (auto simp: respects_bounds_def get_component_def list_all_iff dest: map_of_SomeD)

lemma example_components:
  "components (snd (build F [0::nat] example_build_sido example_block)) =
     [(''electrode_spacing'', Var_comp \<lparr>index_set = None, units = Cm, bounds = (None, None),
          doc = ''Distance between the electrodes''\<rparr>),
      (''solution_conductivity'', Var_comp \<lparr>index_set = None, units = S_per_cm, bounds = (None, None),
          doc = ''Electrical conductivity of solution''\<rparr>),
      (''power_density_k1'', Var_comp \<lparr>index_set = None, units = Dimensionless, bounds = (None, None),
          doc = ''Constant k1 in power density equation''\<rparr>),
      (''power_density_k2'', Var_comp \<lparr>index_set = None, units = Dimensionless, bounds = (None, None),
          doc = ''Constant k2 in power density equation''\<rparr>),
      (''z_valence'', Var_comp \<lparr>index_set = None, units = Dimensionless, bounds = (None, None),
          doc = ''Valence of dissolving metal ion for energy consumption equation''\<rparr>),
      (''current_density'', Var_comp \<lparr>index_set = Some [0], units = MA_per_cm2, bounds = (Some 1, Some 9),
          doc = ''Current density''\<rparr>),
      (''energy_consumption'', Var_comp \<lparr>index_set = Some [0], units = KWh_per_m3_per_mol,
          bounds = (None, None), doc = ''Energy required for treating a given volume''\<rparr>),
      (''energy_consumption_constraint'',
        Constraint_comp [(0, snd (energy_consumption_constraint F 0))] ''Energy requirement constraint'')]"
  by (simp add: build_def Let_def split_beta example_build_sido_def example_block_def
      declare_fixed_parameters_def declare_variables_def store_reporting_contents_def
      set_component_def append_fixed_perf_var_def set_perf_var_def)

lemma example_respects_bounds:
  "\<rho> ''current_density'' (Some 0) = 5 \<Longrightarrow>
   respects_bounds (snd (build F [0::nat] example_build_sido example_block)) \<rho>"
  by (simp add: respects_bounds_def example_components)

subsection \<open>The energy consumption constraint\<close>

text \<open>
  Claim C1. For every time point \<open>t\<close> of the flowsheet, \<open>build\<close> leaves on the block a
  constraint \<^verbatim>\<open>energy_consumption_constraint[t]\<close>, and an assignment satisfies it exactly
  when both sides have a value (the current density is positive and the solution
  conductivity is not zero) and \<^verbatim>\<open>energy_consumption[t]\<close> equals
  \<open>(i * (electrode_spacing / solution_conductivity) + power_density_k1 * ln i
  + power_density_k2) * (z_valence * F / (3600 * 10^6))\<close>, where \<open>i\<close> is
  \<^verbatim>\<open>current_density[t]\<close> converted from mA/cm^2 to A/cm^2 and \<open>F\<close> is the Faraday
  constant.
\<close>

theorem energy_consumption_constraint_correlation:
  assumes "t \<in> set time"
  shows "\<exists>c. constraint_at (snd (build F time build_sido b0)) ''energy_consumption_constraint'' t = Some c
    \<and> (\<forall>\<rho>. let i = \<rho> ''current_density'' (Some t) / 1000 in
          satisfied \<rho> c \<longleftrightarrow>
            0 < i \<and> \<rho> ''solution_conductivity'' None \<noteq> 0 \<and>
            \<rho> ''energy_consumption'' (Some t) =
              (i * (\<rho> ''electrode_spacing'' None / \<rho> ''solution_conductivity'' None)
               + \<rho> ''power_density_k1'' None * ln i
               + \<rho> ''power_density_k2'' None)
              * (\<rho> ''z_valence'' None * F / (3600 * 10 ^ 6)))"
  using assms
  by (simp add: build_constraint_at satisfied_energy_consumption_constraint Let_def)

theorem energy_consumption_constraint_correlation_witness:
  "(0::nat) \<in> set [0] \<and>
   (\<exists>c. constraint_at (snd (build example_faraday [0] example_build_sido example_block))
           ''energy_consumption_constraint'' 0 = Some c
      \<and> satisfied example_assignment c)"
proof -
  have h: "(0::nat) \<in> set [0]" by simp
  from energy_consumption_constraint_correlation [OF h, of example_faraday example_build_sido example_block]
  obtain c where c: "constraint_at (snd (build example_faraday [0] example_build_sido example_block))
           ''energy_consumption_constraint'' 0 = Some c"
    and s: "\<forall>\<rho>. let i = \<rho> ''current_density'' (Some 0) / 1000 in
          satisfied \<rho> c \<longleftrightarrow>
            0 < i \<and> \<rho> ''solution_conductivity'' None \<noteq> 0 \<and>
            \<rho> ''energy_consumption'' (Some 0) =
              (i * (\<rho> ''electrode_spacing'' None / \<rho> ''solution_conductivity'' None)
               + \<rho> ''power_density_k1'' None * ln i
               + \<rho> ''power_density_k2'' None)
              * (\<rho> ''z_valence'' None * example_faraday / (3600 * 10 ^ 6))"
    by blast
  have "satisfied example_assignment c"
    using s [rule_format, of example_assignment]
    by (simp add: Let_def example_assignment_def example_faraday_def)
  with h c show ?thesis by blast
qed

subsection \<open>The breakpoint in the rule\<close>

lemma rule_events: "fst (energy_consumption_constraint F t) = [Breakpoint]"
  by (simp add: energy_consumption_constraint_def)

lemma build_event_trace: "fst (build F time sido b0) = replicate (length time) Breakpoint"
proof -
  have "fst (Constraint time (energy_consumption_constraint F))
          = concat (replicate (length time) [Breakpoint])"
    by (rule Constraint_events) (simp add: rule_events)
  also have "\<dots> = replicate (length time) Breakpoint"
    by (induction time) simp_all
  finally show ?thesis
    by (simp add: build_events)
qed

lemma after_events_Pdb_set_trace:
  "after_events Pdb_set_trace (replicate n Breakpoint) x = (Suspended ^^ n) (Done x)"
  by (induction n) simp_all

lemma after_events_No_op: "after_events No_op evs x = Done x"
proof (induction evs)
  case Nil
  show ?case by simp
next
  case (Cons e evs)
  then show ?case by (cases e) simp
qed

lemma suspensions_funpow: "suspensions ((Suspended ^^ n) k) = n + suspensions k"
  by (induction n) simp_all

lemma returned_funpow: "returned ((Suspended ^^ n) k) = returned k"
  by (induction n) simp_all

text \<open>
  Claim C2, as amended. Building the unit is not a pure construction of constraints: the
  rule of \<^verbatim>\<open>energy_consumption_constraint\<close> calls \<^verbatim>\<open>breakpoint()\<close>, under no condition
  of its own, before it returns its expression, and \<open>build\<close> calls the rule once for every
  time point. Under the hook that calls \<^verbatim>\<open>pdb.set_trace()\<close> each call of the rule is
  stopped in the interactive debugger before its expression is returned, and \<open>build\<close> is
  stopped there once for every time point before it returns the block. Whether construction
  is suspended is decided by the hook and not by the unit: under the hook that returns at
  once the rule and \<open>build\<close> return the same expression and the same block without a stop.
\<close>

theorem build_suspends_in_debugger_under_pdb_hook:
  "fst (build F (time :: 't list) build_sido b0) = replicate (length time) Breakpoint
   \<and> execution Pdb_set_trace (energy_consumption_constraint F (t :: 't))
       = Suspended (Done (snd (energy_consumption_constraint F t)))
   \<and> execution Pdb_set_trace (build F time build_sido b0)
       = (Suspended ^^ length time) (Done (snd (build F time build_sido b0)))
   \<and> suspensions (execution Pdb_set_trace (build F time build_sido b0)) = length time
   \<and> execution No_op (energy_consumption_constraint F t)
       = Done (snd (energy_consumption_constraint F t))
   \<and> execution No_op (build F time build_sido b0) = Done (snd (build F time build_sido b0))"
proof -
  have pdb: "execution Pdb_set_trace (build F time build_sido b0)
       = (Suspended ^^ length time) (Done (snd (build F time build_sido b0)))"
    by (simp add: execution_def build_event_trace after_events_Pdb_set_trace)
  have n: "suspensions (execution Pdb_set_trace (build F time build_sido b0)) = length time"
    by (simp add: pdb suspensions_funpow)
  have r: "execution Pdb_set_trace (energy_consumption_constraint F t)
       = Suspended (Done (snd (energy_consumption_constraint F t)))"
    by (simp add: execution_def rule_events)
  from pdb n r show ?thesis
    by (simp add: build_event_trace) (simp add: execution_def after_events_No_op)
qed

theorem build_suspends_in_debugger_under_pdb_hook_witness:
  "execution Pdb_set_trace (build example_faraday [0, 1] example_build_sido example_block)
     = Suspended (Suspended (Done (snd (build example_faraday [0, 1] example_build_sido example_block))))
   \<and> suspensions (execution Pdb_set_trace
         (build example_faraday [0, 1] example_build_sido example_block)) = 2
   \<and> constraint_at (returned (execution Pdb_set_trace
         (build example_faraday [0, 1] example_build_sido example_block)))
       ''energy_consumption_constraint'' 1 = Some (snd (energy_consumption_constraint example_faraday 1))"
  using build_suspends_in_debugger_under_pdb_hook
    [of example_faraday "[0, 1]" example_build_sido example_block 0]
  by (simp add: build_constraint_at)

text \<open>
  The claim as first stated has construction suspended in the interactive debugger
  unconditionally. With \<^verbatim>\<open>PYTHONBREAKPOINT=0\<close> the same unit over the time points 0 and 1
  calls \<^verbatim>\<open>breakpoint()\<close> twice and is built without a single stop.
\<close>

theorem build_unconditional_suspension_counterexample:
  "fst (build example_faraday [0, 1] example_build_sido example_block) = [Breakpoint, Breakpoint]
   \<and> execution No_op (build example_faraday [0, 1] example_build_sido example_block)
       = Done (snd (build example_faraday [0, 1] example_build_sido example_block))
   \<and> suspensions (execution No_op
         (build example_faraday [0, 1] example_build_sido example_block)) = 0"
  by (simp add: execution_def build_event_trace after_events_No_op)

subsection \<open>The bounds of the current density\<close>

text \<open>
  Claim C10, as amended. The variable \<^verbatim>\<open>current_density\<close> is declared over the time
  points with bounds \<open>(1, 9)\<close> in mA/cm^2. For every assignment that respects the declared
  bounds of the built block and every time point \<open>t\<close>, the argument of the logarithm (the
  current density converted to A/cm^2) is strictly positive, so the logarithm has a value;
  the constraint expression as a whole has a value exactly when, in addition, the solution
  conductivity (declared without bounds, and the divisor of the ohmic resistance) is not
  zero.
\<close>

theorem current_density_bounds_make_logarithm_defined:
  assumes "respects_bounds (snd (build F time build_sido b0)) \<rho>" and "t \<in> set time"
  shows "get_component (snd (build F time build_sido b0)) ''current_density'' =
           Some (Var_comp \<lparr>index_set = Some time, units = MA_per_cm2, bounds = (Some 1, Some 9),
                           doc = ''Current density''\<rparr>)
    \<and> value_of \<rho> (current_density_in t) = Inr (\<rho> ''current_density'' (Some t) / 1000)
    \<and> 0 < \<rho> ''current_density'' (Some t) / 1000
    \<and> well_defined \<rho> (Log (current_density_in t))
    \<and> (\<exists>c. constraint_at (snd (build F time build_sido b0)) ''energy_consumption_constraint'' t = Some c
          \<and> (constraint_well_defined \<rho> c \<longleftrightarrow> \<rho> ''solution_conductivity'' None \<noteq> 0))"
proof -
  let ?b = "snd (build F time build_sido b0)"
  have decl: "get_component ?b ''current_density'' =
           Some (Var_comp \<lparr>index_set = Some time, units = MA_per_cm2, bounds = (Some 1, Some 9),
                           doc = ''Current density''\<rparr>)"
    by (rule build_current_density_component)
  from respects_bounds_component [OF assms(1) decl]
  have "list_all (\<lambda>t. 1 \<le> \<rho> ''current_density'' (Some t) \<and> \<rho> ''current_density'' (Some t) \<le> 9) time"
    by simp
  with assms(2) have rng: "1 \<le> \<rho> ''current_density'' (Some t)"
    by (simp add: list_all_iff)
  then have pos: "0 < \<rho> ''current_density'' (Some t)" by simp
  have wd: "well_defined \<rho> (Log (current_density_in t))"
    using pos by (simp add: well_defined_def value_of_current_density_in)
  have "constraint_well_defined \<rho> (snd (energy_consumption_constraint F t))
          \<longleftrightarrow> \<rho> ''solution_conductivity'' None \<noteq> 0"
    using pos by (simp add: well_defined_energy_consumption_constraint)
  with build_constraint_at [OF assms(2), of F build_sido b0] decl pos wd
  show ?thesis
    by (simp add: value_of_current_density_in)
qed

theorem current_density_bounds_make_logarithm_defined_witness:
  "respects_bounds (snd (build example_faraday [0] example_build_sido example_block)) example_assignment
   \<and> (0::nat) \<in> set [0]
   \<and> value_of example_assignment (current_density_in 0) = Inr (5 / 1000)
   \<and> well_defined example_assignment (Log (current_density_in 0))
   \<and> constraint_well_defined example_assignment (snd (energy_consumption_constraint example_faraday 0))"
proof -
  have r: "respects_bounds (snd (build example_faraday [0] example_build_sido example_block)) example_assignment"
    by (rule example_respects_bounds) (simp add: example_assignment_def)
  have h: "(0::nat) \<in> set [0]" by simp
  from current_density_bounds_make_logarithm_defined [OF r h] r h
  show ?thesis
    by (simp add: build_constraint_at example_assignment_def)
qed

text \<open>
  The claim as first stated also promises that the whole constraint expression is well
  defined under every assignment within the declared bounds. The assignment below is within
  them (the only declared bounds are those of the current density), the logarithm has a
  value, and the division by the solution conductivity raises \<^verbatim>\<open>ZeroDivisionError\<close>.
\<close>

theorem constraint_well_defined_counterexample:
  "respects_bounds (snd (build example_faraday [0] example_build_sido example_block))
     zero_conductivity_assignment
   \<and> constraint_at (snd (build example_faraday [0] example_build_sido example_block))
       ''energy_consumption_constraint'' 0 = Some (snd (energy_consumption_constraint example_faraday 0))
   \<and> value_of zero_conductivity_assignment (Log (current_density_in 0)) = Inr (ln (5 / 1000))
   \<and> value_of zero_conductivity_assignment ohmic_resistance = Inl ZeroDivisionError
   \<and> \<not> constraint_well_defined zero_conductivity_assignment
         (snd (energy_consumption_constraint example_faraday 0))"
proof -
  have r: "respects_bounds (snd (build example_faraday [0] example_build_sido example_block))
     zero_conductivity_assignment"
    by (rule example_respects_bounds) (simp add: zero_conductivity_assignment_def)
  have c: "constraint_at (snd (build example_faraday [0] example_build_sido example_block))
       ''energy_consumption_constraint'' 0 = Some (snd (energy_consumption_constraint example_faraday 0))"
    by (simp add: build_constraint_at)
  have l: "value_of zero_conductivity_assignment (Log (current_density_in 0)) = Inr (ln (5 / 1000))"
    by (simp add: value_of_current_density_in zero_conductivity_assignment_def)
  have z: "value_of zero_conductivity_assignment (ohmic_resistance :: nat expr) = Inl ZeroDivisionError"
    by (simp add: value_of_ohmic_resistance zero_conductivity_assignment_def)
  have n: "\<not> constraint_well_defined zero_conductivity_assignment
         (snd (energy_consumption_constraint example_faraday 0))"
    by (simp add: well_defined_energy_consumption_constraint zero_conductivity_assignment_def)
  from r c l z n show ?thesis by blast
qed

end
